theory Spec2Isabelle
  imports Complex_Main
begin

section \<open>Time codec\<close>

text \<open>
  The time object of \<^verbatim>\<open>talking-timer.js\<close>: \<^verbatim>\<open>{hours, minutes, seconds, tenths}\<close>.
  The field \<^verbatim>\<open>tenths\<close> may be absent (\<^verbatim>\<open>initialValue\<close> has none), which
  \<^verbatim>\<open>timeObjToMilliseconds\<close> tests with \<^verbatim>\<open>typeof timeObj.tenths === 'undefined'\<close>.
  Durations are integer milliseconds; on integers \<^verbatim>\<open>Math.floor(a / b)\<close> is \<open>a div b\<close>.
\<close>

record timeObj =
  hours :: int
  minutes :: int
  seconds :: int
  tenths :: "int option"

record multipliersRec =
  mHours :: int
  mMinutes :: int
  mSeconds :: int
  mTenths :: int

definition multipliers :: multipliersRec where
  "multipliers = \<lparr>mHours = 3600000, mMinutes = 60000, mSeconds = 1000, mTenths = 100\<rparr>"

record wholePart =
  whole :: int
  part :: int

definition getWholePart :: "int \<Rightarrow> int \<Rightarrow> wholePart" where
  "getWholePart input multiplier =
     (let wholeVal = input div multiplier;
          partVal = input - (wholeVal * multiplier)
      in \<lparr>whole = wholeVal, part = partVal\<rparr>)"

text \<open>
  The loop over \<^verbatim>\<open>['hours', 'minutes', 'seconds', 'tenths']\<close>, unrolled in the order of
  the source; the remainder left after the tenths is not stored anywhere.
\<close>

definition millisecondsToTimeObj :: "int \<Rightarrow> timeObj" where
  "millisecondsToTimeObj milliseconds =
     (let tmpH = getWholePart milliseconds (mHours multipliers);
          tmpM = getWholePart (part tmpH) (mMinutes multipliers);
          tmpS = getWholePart (part tmpM) (mSeconds multipliers);
          tmpT = getWholePart (part tmpS) (mTenths multipliers)
      in \<lparr>hours = whole tmpH, minutes = whole tmpM, seconds = whole tmpS,
          tenths = Some (whole tmpT)\<rparr>)"

text \<open>The loop over \<^verbatim>\<open>['tenths', 'seconds', 'minutes', 'hours']\<close>, starting from 0.\<close>

definition timeObjToMilliseconds :: "timeObj \<Rightarrow> int" where
  "timeObjToMilliseconds t =
     (let tmpTenths = (case tenths t of None \<Rightarrow> 0 | Some v \<Rightarrow> v)
      in 0 + tmpTenths * mTenths multipliers
           + seconds t * mSeconds multipliers
           + minutes t * mMinutes multipliers
           + hours t * mHours multipliers)"

section \<open>Lead table\<close>

text \<open>
  \<^verbatim>\<open>this.pre\<close>: three bands with fixed thresholds 10000, 19999 and 86400; each delay
  is the default (200, 600, 1200) unless the global defaults object overrides it, so
  the delays are the fields of a configuration record.
\<close>

record preEntry =
  remaining :: int
  delay :: int

record preDelays =
  delay10000 :: int
  delay19999 :: int
  delay86400 :: int

definition defaultPreDelays :: preDelays where
  "defaultPreDelays = \<lparr>delay10000 = 200, delay19999 = 600, delay86400 = 1200\<rparr>"

definition pre :: "preDelays \<Rightarrow> preEntry list" where
  "pre g = [\<lparr>remaining = 10000, delay = delay10000 g\<rparr>,
            \<lparr>remaining = 19999, delay = delay19999 g\<rparr>,
            \<lparr>remaining = 86400, delay = delay86400 g\<rparr>]"

text \<open>
  The \<^verbatim>\<open>for\<close> loop of \<^verbatim>\<open>getSpeakPreOffset\<close> returns the delay of the first band whose
  threshold is not below \<^verbatim>\<open>timeRemaining\<close>. After the loop the source reads
  \<^verbatim>\<open>this.pre[c - 1].delay\<close>, which throws a TypeError on an empty table: \<open>None\<close>.
\<close>

fun preLoop :: "preEntry list \<Rightarrow> int \<Rightarrow> int option" where
  "preLoop [] timeRemaining = None"
| "preLoop (e # es) timeRemaining =
     (if timeRemaining \<le> remaining e then Some (delay e) else preLoop es timeRemaining)"

definition getSpeakPreOffset :: "preEntry list \<Rightarrow> int \<Rightarrow> int option" where
  "getSpeakPreOffset tbl timeRemaining =
     (case preLoop tbl timeRemaining of
        Some d \<Rightarrow> Some d
      | None \<Rightarrow> (if tbl = [] then None else Some (delay (last tbl))))"

section \<open>Regular expressions\<close>

text \<open>
  Both parsers of the source are regular expressions run by \<^verbatim>\<open>RegExp.prototype.exec\<close>.
  The model is a backtracking matcher with the constructs the two expressions use. A
  matcher state is the index in the input, the rest of the input from that index and
  the capture groups set so far. \<open>rmatch\<close> returns every way the expression can match
  at the state, in the order in which a backtracking engine tries them (the left branch
  of an alternative first, the longest repetition first, an optional part taken before
  it is skipped); \<^verbatim>\<open>exec\<close> takes the first. A string is a list of UTF-16 code units
  below 256.
\<close>

type_synonym captures = "(nat \<times> string) list"
type_synonym mstate = "nat \<times> string \<times> captures"

datatype regex =
    Cls "char \<Rightarrow> bool"
  | Bol
  | Eol
  | Seq regex regex
  | Alt regex regex
  | Opt regex
  | Rep "char \<Rightarrow> bool" nat "nat option"
  | Grp nat regex
  | Look regex

fun rmatch :: "regex \<Rightarrow> mstate \<Rightarrow> mstate list" where
  "rmatch (Cls P) (p, s, c) =
     (case s of [] \<Rightarrow> [] | x # s' \<Rightarrow> if P x then [(Suc p, s', c)] else [])"
| "rmatch Bol (p, s, c) = (if p = 0 then [(p, s, c)] else [])"
| "rmatch Eol (p, s, c) = (if s = [] then [(p, s, c)] else [])"
| "rmatch (Seq a b) st = concat (map (rmatch b) (rmatch a st))"
| "rmatch (Alt a b) st = rmatch a st @ rmatch b st"
| "rmatch (Opt a) st = rmatch a st @ [st]"
| "rmatch (Rep P lo hi) (p, s, c) =
     (let n = length (takeWhile P s);
          m = (case hi of None \<Rightarrow> n | Some h \<Rightarrow> min n h)
      in map (\<lambda>k. (p + k, drop k s, c)) (rev [lo..<Suc m]))"
| "rmatch (Grp i a) (p, s, c) =
     map (\<lambda>(p', s', c'). (p', s', (i, take (p' - p) s) # c')) (rmatch a (p, s, c))"
| "rmatch (Look a) st = (if rmatch a st = [] then [] else [st])"

fun seqs :: "regex list \<Rightarrow> regex" where
  "seqs [] = Opt Eol"
| "seqs [r] = r"
| "seqs (r # rs) = Seq r (seqs rs)"

text \<open>
  \<^verbatim>\<open>exec\<close> from index \<open>p\<close>: the first index at or after \<open>p\<close> where the expression
  matches, the input from there, and the first match.
\<close>

fun search :: "regex \<Rightarrow> nat \<Rightarrow> string \<Rightarrow> (nat \<times> string \<times> mstate) option" where
  "search r p [] =
     (case rmatch r (p, [], []) of
        st # _ \<Rightarrow> Some (p, [], st)
      | [] \<Rightarrow> None)"
| "search r p (x # s') =
     (case rmatch r (p, x # s', []) of
        st # _ \<Rightarrow> Some (p, x # s', st)
      | [] \<Rightarrow> search r (Suc p) s')"

definition oneOf :: "string \<Rightarrow> char \<Rightarrow> bool" where
  "oneOf cs c = (c \<in> set cs)"

definition digit :: "char \<Rightarrow> bool" where
  "digit = oneOf ''0123456789''"

text \<open>\<^verbatim>\<open>\s\<close>: the white space and line terminator code units below 256.\<close>

definition isSpace :: "char \<Rightarrow> bool" where
  "isSpace c = (c \<in> set [CHR 0x09, CHR 0x0A, CHR 0x0B, CHR 0x0C, CHR 0x0D, CHR 0x20, CHR 0xA0])"

text \<open>
  The source lower-cases with \<^verbatim>\<open>toLocaleLowerCase\<close> only groups that hold ASCII
  letters; the flag \<^verbatim>\<open>i\<close> folds the case of the ASCII letters of the expression
  (a code unit of 128 or more never folds onto an ASCII one).
\<close>

definition toLowerChar :: "char \<Rightarrow> char" where
  "toLowerChar c =
     (case map_of (zip ''ABCDEFGHIJKLMNOPQRSTUVWXYZ'' ''abcdefghijklmnopqrstuvwxyz'') c of
        Some l \<Rightarrow> l | None \<Rightarrow> c)"

definition toLocaleLowerCase :: "string \<Rightarrow> string" where
  "toLocaleLowerCase w = map toLowerChar w"

definition ci :: "string \<Rightarrow> char \<Rightarrow> bool" where
  "ci cs c = (toLowerChar c \<in> set cs)"

definition lit :: "string \<Rightarrow> regex" where
  "lit w = seqs (map (\<lambda>x. Cls (ci [x])) w)"

text \<open>\<^verbatim>\<open>Number.parseInt(w, 10)\<close> on a string of decimal digits, as an exact integer.\<close>

definition digitVal :: "char \<Rightarrow> nat" where
  "digitVal c = of_char c - 48"

definition parseInt :: "string \<Rightarrow> nat" where
  "parseInt w = foldl (\<lambda>n c. 10 * n + digitVal c) 0 w"

text \<open>The decimal text of an integer, as \<^verbatim>\<open>toString\<close> and string concatenation give it.\<close>

fun showNat :: "nat \<Rightarrow> string" where
  "showNat n =
     (if n < 10 then [''0123456789'' ! n]
      else showNat (n div 10) @ [''0123456789'' ! (n mod 10)])"

declare showNat.simps [simp del]

definition showInt :: "int \<Rightarrow> string" where
  "showInt i = (if i < 0 then CHR ''-'' # showNat (nat (- i)) else showNat (nat i))"

datatype jsValue = JSString string | JSOther

section \<open>Duration parser\<close>

text \<open>
  \<^verbatim>\<open>^(?:(?:(?:([0-1]?[0-9]|2[0-4]):)?([0-5]?[0-9]):)?([0-5]?[0-9])|([6-9][0-9]|[1-9][0-9]{2,5}))$\<close>
\<close>

definition durationRegex :: regex where
  "durationRegex = seqs [
     Bol,
     Alt (Seq (Opt (Seq (Opt (Seq (Grp 1 (Alt (Seq (Opt (Cls (oneOf ''01''))) (Cls digit))
                                              (Seq (Cls (oneOf ''2'')) (Cls (oneOf ''01234'')))))
                                  (Cls (oneOf '':''))))
                        (Seq (Grp 2 (Seq (Opt (Cls (oneOf ''012345''))) (Cls digit)))
                             (Cls (oneOf '':'')))))
              (Grp 3 (Seq (Opt (Cls (oneOf ''012345''))) (Cls digit))))
         (Grp 4 (Alt (Seq (Cls (oneOf ''6789'')) (Cls digit))
                     (Seq (Cls (oneOf ''123456789'')) (Rep digit 2 (Some 5))))),
     Eol]"

section \<open>Announcements and the timer\<close>

text \<open>
  An offset object \<^verbatim>\<open>{offset, message, raw}\<close>; some of the source's literals leave
  \<^verbatim>\<open>raw\<close> out. Offsets are numbers: quotients such as \<^verbatim>\<open>milliseconds / 2\<close> are exact
  rationals here.
\<close>

record announcement =
  offset :: rat
  message :: string
  araw :: "string option"

record suffixesRec =
  firstSuffix :: string
  lastSuffix :: string
  halfSuffix :: string

definition defaultSuffixes :: suffixesRec where
  "defaultSuffixes = \<lparr>firstSuffix = '' gone.'', lastSuffix = '' to go.'', halfSuffix = ''Half way.''\<rparr>"

text \<open>
  The fields of the element that the modelled methods read or write: the configured
  priority and suffixes, the countdown clock, both interval lists, and the sink, which
  lists what \<^verbatim>\<open>saySomething\<close> was given, in order. \<open>ended\<close> records that
  \<^verbatim>\<open>endPlaying\<close> was called.
\<close>

record talkingTimer =
  priority :: string
  suffixes :: suffixesRec
  preTable :: "preEntry list"
  initialMilliseconds :: int
  remainingMilliseconds :: int
  endTime :: int
  sayIntervals :: "announcement list"
  workingIntervals :: "announcement list"
  said :: "string list"
  ended :: bool

definition resetTimerValues :: "talkingTimer \<Rightarrow> talkingTimer" where
  "resetTimerValues self =
     self\<lparr>remainingMilliseconds := initialMilliseconds self,
          endTime := 0,
          workingIntervals := sayIntervals self\<rparr>"

text \<open>
  \<^verbatim>\<open>validateTimeDuration\<close> returns whether the text was accepted, and the element.
  The bare-seconds branch is taken when group 4 took part in the match.
\<close>

definition validateTimeDuration :: "jsValue \<Rightarrow> talkingTimer \<Rightarrow> bool \<times> talkingTimer" where
  "validateTimeDuration hoursMinutesSeconds self =
     (case hoursMinutesSeconds of
        JSOther \<Rightarrow> (False, self)
      | JSString str \<Rightarrow>
          (case search durationRegex 0 str of
             None \<Rightarrow> (False, self)
           | Some (_, _, (_, _, matches)) \<Rightarrow>
               (case map_of matches 4 of
                  Some m4 \<Rightarrow>
                    (let seconds0 = int (parseInt m4);
                         seconds1 = (if seconds0 > 86400 then 86400 else seconds0)
                     in (True, resetTimerValues (self\<lparr>initialMilliseconds := seconds1 * 1000\<rparr>)))
                | None \<Rightarrow>
                    (let tmpStart = \<lparr>
                           hours = (case map_of matches 1 of
                                      Some m1 \<Rightarrow> if m1 \<noteq> [] then int (parseInt m1) else 0
                                    | None \<Rightarrow> 0),
                           minutes = (case map_of matches 2 of
                                      Some m2 \<Rightarrow> if m2 \<noteq> [] then int (parseInt m2) else 0
                                    | None \<Rightarrow> 0),
                           seconds = (case map_of matches 3 of
                                      Some m3 \<Rightarrow> int (parseInt m3)
                                    | None \<Rightarrow> 0),
                           tenths = None\<rparr>
                     in (True, resetTimerValues
                          (self\<lparr>initialMilliseconds := timeObjToMilliseconds tmpStart\<rparr>))))))"

section \<open>Messages\<close>

definition posMinus :: "rat \<Rightarrow> rat \<Rightarrow> rat" where
  "posMinus a b = (if a > b then a - b else b - a)"

definition tooClose :: "rat \<Rightarrow> rat \<Rightarrow> bool" where
  "tooClose current previous = (current > (previous - 5000) \<and> current < (previous + 5000))"

fun tooCloseAny :: "rat \<Rightarrow> rat list \<Rightarrow> bool" where
  "tooCloseAny offs [] = False"
| "tooCloseAny offs (prev # previous) =
     (if tooClose offs prev then True else tooCloseAny offs previous)"

text \<open>\<^verbatim>\<open>Math.round\<close> rounds a half towards plus infinity.\<close>

definition jsRound :: "rat \<Rightarrow> int" where
  "jsRound x = \<lfloor>x + 1 / 2\<rfloor>"

text \<open>
  \<^verbatim>\<open>makeTimeMessage(offset, suffix, forceSufix)\<close>; the third argument may be left out.
  The minutes branch assigns \<^verbatim>\<open>output\<close> where the other two append to it.
\<close>

definition makeTimeMessage :: "rat \<Rightarrow> string \<Rightarrow> bool option \<Rightarrow> string" where
  "makeTimeMessage offs suffix forceSufixArg =
     (let forceSufix = (case forceSufixArg of None \<Rightarrow> False | Some b \<Rightarrow> b);
          working = offs
      in if working < 20000 then
           (let tmpSuffix = (if forceSufix then '' seconds'' @ suffix
                             else if working > 10000 then '' seconds'' else [])
            in showInt (jsRound (working / 1000)) @ tmpSuffix)
         else
           (let (working1, output1, comma1) =
                  (if working \<ge> 3600000 then
                     (let hrs = \<lfloor>working / 3600000\<rfloor>
                      in (working - of_int hrs * 3600000,
                          [] @ [] @ showInt hrs @ '' hour'' @ (if hrs > 1 then ''s'' else []),
                          '', ''))
                   else (working, [], []));
                (working2, output2, comma2) =
                  (if working1 \<ge> 60000 then
                     (let mins = \<lfloor>working1 / 60000\<rfloor>
                      in (working1 - of_int mins * 60000,
                          comma1 @ showInt mins @ '' minute'' @ (if mins > 1 then ''s'' else []),
                          '', ''))
                   else (working1, output1, comma1));
                working3 = jsRound (working2 / 1000);
                output3 =
                  (if working3 > 0 then
                     output2 @ comma2 @ showInt working3 @ '' second''
                       @ (if working3 > 1 then ''s'' else [])
                   else output2)
            in output3 @ suffix))"

text \<open>
  \<^verbatim>\<open>makeFractionMessage(numerator, denominator)\<close> on non-negative integers.
  \<^verbatim>\<open>Number.isInteger(denominator / numerator)\<close> holds when the numerator is not zero
  and divides the denominator. The new numerator
  \<^verbatim>\<open>numerator / (denominator / newDenominator)\<close> is \<^verbatim>\<open>NaN\<close> for a zero denominator and
  an integer otherwise.
\<close>

definition makeFractionMessage :: "suffixesRec \<Rightarrow> nat \<Rightarrow> nat \<Rightarrow> string" where
  "makeFractionMessage sfx numerator denominator =
     (let newDenominator =
            (if numerator \<noteq> 0 \<and> numerator dvd denominator then denominator div numerator
             else denominator)
      in if newDenominator = 2 then halfSuffix sfx
         else
           (let fraction =
                  (if newDenominator = 3 then ''third''
                   else if newDenominator = 4 then ''quarter''
                   else if newDenominator = 5 then ''fifth''
                   else if newDenominator = 6 then ''sixth''
                   else if newDenominator = 7 then ''seventh''
                   else if newDenominator = 8 then ''eighth''
                   else if newDenominator = 9 then ''ninth''
                   else if newDenominator = 10 then ''tenth''
                   else [])
            in if denominator = 0 then ''NaN'' @ '' '' @ fraction
               else
                 (let newNumerator = numerator div (denominator div newDenominator);
                      s = (if newNumerator > 1 then ''s'' else [])
                  in showNat newNumerator @ '' '' @ fraction @ s)))"

section \<open>Interval directives\<close>

text \<open>
  The interval object that \<^verbatim>\<open>parseRawIntervals\<close> builds for each match. The fraction
  branch adds \<^verbatim>\<open>denominator\<close> to it, the time branch \<^verbatim>\<open>unit\<close> and \<^verbatim>\<open>time\<close>.
  The multiplier and the quantities are read by \<^verbatim>\<open>parseInt\<close> from digits, so they
  are natural numbers.
\<close>

record interval =
  all :: bool
  every :: bool
  multiplier :: nat
  relative :: string
  exclude :: bool
  isFraction :: bool
  raw :: string

record fractionInterval = interval +
  denominator :: nat

record timeInterval = interval +
  unit :: string
  time :: nat

section \<open>Offset generator: fractions\<close>

text \<open>
  The array \<^verbatim>\<open>offsets\<close> of \<^verbatim>\<open>getFractionOffsetAndMessage\<close> before the final
  \<^verbatim>\<open>map\<close>: the relative loop \<^verbatim>\<open>a = 1 .. count\<close>, or the symmetric loop
  \<^verbatim>\<open>a = 1 .. count / 2\<close> that pushes two objects each time.
\<close>

definition fractionCount :: "fractionInterval \<Rightarrow> nat" where
  "fractionCount intervalObj =
     (if multiplier intervalObj = 0 \<or> multiplier intervalObj \<ge> denominator intervalObj
      then denominator intervalObj else multiplier intervalObj)"

definition fractionOffsets :: "suffixesRec \<Rightarrow> fractionInterval \<Rightarrow> rat \<Rightarrow> announcement list" where
  "fractionOffsets sfx intervalObj milliseconds =
     (let intervalLen = milliseconds / of_nat (denominator intervalObj);
          count = fractionCount intervalObj
      in if relative intervalObj \<noteq> [] then
           (let suffix = (if relative intervalObj = ''first'' then firstSuffix sfx
                          else lastSuffix sfx);
                minus = (if relative intervalObj = ''first'' then milliseconds else 0)
            in map (\<lambda>a. \<lparr>offset = posMinus minus (intervalLen * of_nat a),
                          message = makeFractionMessage sfx a (denominator intervalObj) @ suffix,
                          araw = Some (raw intervalObj)\<rparr>)
                 [1..<Suc count])
         else
           concat (map (\<lambda>a.
               (let msg = makeFractionMessage sfx a (denominator intervalObj)
                in [\<lparr>offset = milliseconds - intervalLen * of_nat a,
                      message = msg @ lastSuffix sfx, araw = None\<rparr>,
                    \<lparr>offset = intervalLen * of_nat a,
                      message = msg @ firstSuffix sfx, araw = None\<rparr>]))
             [1..<Suc (count div 2)]))"

text \<open>The callback of the final \<^verbatim>\<open>map\<close>.\<close>

definition halfCollapse :: "suffixesRec \<Rightarrow> rat \<Rightarrow> announcement \<Rightarrow> announcement" where
  "halfCollapse sfx half item =
     (if tooClose (offset item) half
      then \<lparr>offset = half, message = halfSuffix sfx, araw = None\<rparr>
      else item)"

definition getFractionOffsetAndMessage ::
  "suffixesRec \<Rightarrow> fractionInterval \<Rightarrow> rat \<Rightarrow> announcement list" where
  "getFractionOffsetAndMessage sfx intervalObj milliseconds =
     (let half = milliseconds / 2
      in if denominator intervalObj = 2
         then [\<lparr>offset = half, message = ''Half way'', araw = Some (raw intervalObj)\<rparr>]
         else map (halfCollapse sfx half) (fractionOffsets sfx intervalObj milliseconds))"

section \<open>Offset generator: times\<close>

text \<open>
  What a call can do other than return a list. The quantity of a time directive is a
  positive integer whenever the notation parser built the directive; for a zero
  quantity the loops of \<^verbatim>\<open>getTimeOffsetAndMessage\<close> never advance
  (\<open>LoopsForever\<close>). \<open>NotANumber\<close> marks the read of a capture group that took no
  part in the match, where the source would compute with \<^verbatim>\<open>NaN\<close>.
\<close>

datatype failure = LoopsForever | NotANumber

text \<open>
  \<^verbatim>\<open>for (let offset = interval; offset <= half; offset += interval)\<close>, pushing the
  pair of objects of the symmetric branch. The caller handles a zero interval.
\<close>

function symmetricLoop ::
  "suffixesRec \<Rightarrow> string \<Rightarrow> rat \<Rightarrow> rat \<Rightarrow> nat \<Rightarrow> nat \<Rightarrow> announcement list" where
  "symmetricLoop sfx rawText milliseconds half intervalLen offs =
     (if 0 < intervalLen \<and> of_nat offs \<le> half then
        [\<lparr>offset = of_nat offs,
          message = makeTimeMessage (of_nat offs) (lastSuffix sfx) None,
          araw = Some rawText\<rparr>,
         \<lparr>offset = milliseconds - of_nat offs,
          message = makeTimeMessage (of_nat offs) (firstSuffix sfx) None,
          araw = Some rawText\<rparr>]
        @ symmetricLoop sfx rawText milliseconds half intervalLen (offs + intervalLen)
      else [])"
  by pat_completeness auto
termination
proof (relation "measure (\<lambda>(sfx, rawText, milliseconds, half, intervalLen, offs).
                    nat \<lfloor>half\<rfloor> + 1 - offs)")
  show "wf (measure (\<lambda>(sfx :: suffixesRec, rawText :: string, milliseconds :: rat,
                       half :: rat, intervalLen :: nat, offs :: nat).
                    nat \<lfloor>half\<rfloor> + 1 - offs))"
    by simp
next
  fix sfx :: suffixesRec and rawText :: string and milliseconds half :: rat
    and intervalLen offs :: nat
  assume a: "0 < intervalLen \<and> of_nat offs \<le> half"
  then have "int offs \<le> \<lfloor>half\<rfloor>"
    by (simp add: le_floor_iff)
  then have "offs \<le> nat \<lfloor>half\<rfloor>"
    by linarith
  moreover from a have "0 < intervalLen"
    by simp
  ultimately show "((sfx, rawText, milliseconds, half, intervalLen, offs + intervalLen),
                (sfx, rawText, milliseconds, half, intervalLen, offs))
               \<in> measure (\<lambda>(sfx, rawText, milliseconds, half, intervalLen, offs).
                    nat \<lfloor>half\<rfloor> + 1 - offs)"
    by auto
qed

declare symmetricLoop.simps [simp del]

text \<open>The values of \<^verbatim>\<open>a\<close> in \<^verbatim>\<open>for (let a = count; a > 0; a -= 1)\<close>.\<close>

function countDown :: "rat \<Rightarrow> rat list" where
  "countDown a = (if a > 0 then a # countDown (a - 1) else [])"
  by pat_completeness auto
termination
proof (relation "measure (\<lambda>a. nat \<lceil>a\<rceil>)")
  show "wf (measure (\<lambda>a :: rat. nat \<lceil>a\<rceil>))"
    by simp
next
  fix a :: rat
  assume "0 < a"
  then have "0 < \<lceil>a\<rceil>"
    by (simp add: less_ceiling_iff)
  moreover have "\<lceil>a - 1\<rceil> = \<lceil>a\<rceil> - 1"
    by simp
  ultimately show "(a - 1, a) \<in> measure (\<lambda>a. nat \<lceil>a\<rceil>)"
    by simp
qed

declare countDown.simps [simp del]

text \<open>
  \<^verbatim>\<open>for (let offset = interval; offset <= intervalObj.time; offset += interval)\<close> of
  the branch for a multiplier above one.
\<close>

function multiplierLoop ::
  "string \<Rightarrow> string \<Rightarrow> rat \<Rightarrow> nat \<Rightarrow> nat \<Rightarrow> nat \<Rightarrow> announcement list" where
  "multiplierLoop suffix rawText modifier quantity intervalLen offs =
     (if 0 < intervalLen \<and> offs \<le> quantity then
        \<lparr>offset = posMinus modifier (of_nat offs),
         message = makeTimeMessage (of_nat offs) suffix None,
         araw = Some rawText\<rparr>
        # multiplierLoop suffix rawText modifier quantity intervalLen (offs + intervalLen)
      else [])"
  by pat_completeness auto
termination
  by (relation "measure (\<lambda>(suffix, rawText, modifier, quantity, intervalLen, offs).
                  quantity + 1 - offs)") auto

declare multiplierLoop.simps [simp del]

definition getTimeOffsetAndMessage ::
  "suffixesRec \<Rightarrow> timeInterval \<Rightarrow> rat \<Rightarrow> string \<Rightarrow> failure + announcement list" where
  "getTimeOffsetAndMessage sfx intervalObj milliseconds rawArg =
     (let suffix = (if relative intervalObj = ''first'' then firstSuffix sfx else lastSuffix sfx)
      in if (all intervalObj \<or> every intervalObj) \<or> multiplier intervalObj > 1 then
           if (all intervalObj \<or> every intervalObj) \<and> multiplier intervalObj \<le> 1 then
             if relative intervalObj = [] then
               (let half = milliseconds / 2;
                    intervalLen = time intervalObj * 1000
                in if intervalLen = 0 then (if 0 \<le> half then Inl LoopsForever else Inr [])
                   else Inr (symmetricLoop sfx (raw intervalObj) milliseconds half
                               intervalLen intervalLen))
             else
               (let interval0 = (if unit intervalObj = ''m'' then 60000
                                 else if unit intervalObj = ''h'' then 3600000
                                 else (1000 :: nat));
                    intervalLen = (if every intervalObj then interval0 * time intervalObj
                                   else interval0);
                    modifier = (if relative intervalObj \<noteq> ''first'' then 0 else milliseconds);
                    forceSufix = (relative intervalObj = ''first'')
                in if every intervalObj \<and> intervalLen = 0 then
                     (if 0 < milliseconds then Inl LoopsForever else Inr [])
                   else
                     (let count = (if every intervalObj then milliseconds / of_nat intervalLen
                                   else of_nat (time intervalObj))
                      in Inr (map (\<lambda>a.
                                (let offs = a * of_nat intervalLen
                                 in \<lparr>offset = posMinus modifier offs,
                                     message = makeTimeMessage offs suffix (Some forceSufix),
                                     araw = Some (raw intervalObj)\<rparr>))
                              (countDown count))))
           else if multiplier intervalObj > 1 then
             (let unitLen = (if unit intervalObj = ''s'' then 10000
                             else if unit intervalObj = ''m'' then 60000
                             else (3600000 :: nat));
                  intervalLen = time intervalObj * unitLen;
                  modifier = (if relative intervalObj = ''last'' then 0 else milliseconds)
              in if intervalLen = 0 then Inl LoopsForever
                 else Inr (multiplierLoop suffix (raw intervalObj) modifier (time intervalObj)
                             intervalLen intervalLen))
           else Inr []
         else
           (let intervalLen = of_nat (time intervalObj * 1000);
                offs = (if relative intervalObj \<noteq> ''first'' then intervalLen
                        else milliseconds - intervalLen)
            in Inr [\<lparr>offset = offs,
                     message = makeTimeMessage intervalLen suffix None,
                     araw = Some rawArg\<rparr>]))"

section \<open>Schedule builder\<close>

text \<open>
  \<^verbatim>\<open>filterOffsets\<close>: the callback of \<^verbatim>\<open>filter\<close> runs over the items in order and
  appends each offset it keeps to \<^verbatim>\<open>found\<close>.
\<close>

fun filterLoop :: "rat list \<Rightarrow> rat \<Rightarrow> announcement list \<Rightarrow> announcement list" where
  "filterLoop found mx [] = []"
| "filterLoop found mx (item # items) =
     (if offset item \<notin> set found
         \<and> (offset item \<le> 30000 \<or> \<not> tooCloseAny (offset item) found)
         \<and> offset item < mx \<and> offset item > 0
      then item # filterLoop (found @ [offset item]) mx items
      else filterLoop found mx items)"

definition filterOffsets :: "announcement list \<Rightarrow> rat \<Rightarrow> announcement list" where
  "filterOffsets offsets mx = filterLoop [] mx offsets"

text \<open>
  \<^verbatim>\<open>sortOffsets\<close>: a stable sort with a comparator that puts the larger offset first.
\<close>

definition sortOffsets :: "announcement list \<Rightarrow> announcement list" where
  "sortOffsets input = sort_key (\<lambda>a. - offset a) input"

section \<open>Notation parser\<close>

text \<open>
  \<^verbatim>\<open>(?:^|\s+)(all|every)?[_-]?([0-9]+)?[_-]?((?:la|fir)st)?[_-]?(?:([1-9][0-9]*)[_-]?([smh]?)|([1-9])?[_-]?1\/([2-9]|10))(?=\s+|$)\<close>
  with the flags \<^verbatim>\<open>ig\<close>.
\<close>

definition intervalRegex :: regex where
  "intervalRegex = seqs [
     Alt Bol (Rep isSpace 1 None),
     Opt (Grp 1 (Alt (lit ''all'') (lit ''every''))),
     Opt (Cls (oneOf ''_-'')),
     Opt (Grp 2 (Rep digit 1 None)),
     Opt (Cls (oneOf ''_-'')),
     Opt (Grp 3 (Seq (Alt (lit ''la'') (lit ''fir'')) (lit ''st''))),
     Opt (Cls (oneOf ''_-'')),
     Alt (seqs [Grp 4 (Seq (Cls (oneOf ''123456789'')) (Rep digit 0 None)),
                Opt (Cls (oneOf ''_-'')),
                Grp 5 (Opt (Cls (ci ''smh'')))])
         (seqs [Opt (Grp 6 (Cls (oneOf ''123456789''))),
                Opt (Cls (oneOf ''_-'')),
                Cls (oneOf ''1''),
                Cls (oneOf ''/''),
                Grp 7 (Alt (Cls (oneOf ''23456789'')) (lit ''10''))]),
     Look (Alt (Rep isSpace 1 None) Eol)]"

record intervalLists =
  timeIntervals :: "announcement list"
  fractionIntervals :: "announcement list"
  orderIntervals :: "announcement list"

text \<open>
  The body of the \<^verbatim>\<open>while\<close> loop of \<^verbatim>\<open>parseRawIntervals\<close> for one match:
  \<open>matched\<close> is \<^verbatim>\<open>matches[0]\<close> and \<open>matches\<close> holds the groups that took part.
\<close>

definition loopBody ::
  "talkingTimer \<Rightarrow> rat \<Rightarrow> bool \<Rightarrow> string \<Rightarrow> captures \<Rightarrow> intervalLists
     \<Rightarrow> failure + intervalLists" where
  "loopBody self durationMilli excl matched matches acc =
     (let allEvery = (case map_of matches 1 of Some m1 \<Rightarrow> toLocaleLowerCase m1 | None \<Rightarrow> []);
          firstLast = (case map_of matches 3 of Some m3 \<Rightarrow> toLocaleLowerCase m3 | None \<Rightarrow> []);
          all0 = (allEvery = ''all'' \<or> firstLast = []);
          every0 = (allEvery = ''every'' \<and> firstLast \<noteq> []);
          multiplier0 = (case map_of matches 2 of Some m2 \<Rightarrow> parseInt m2 | None \<Rightarrow> 1);
          all1 = (if every0 then False else all0);
          multiplier1 = (if every0 then 0 else if all0 then 0 else multiplier0)
      in case map_of matches 7 of
           Some m7 \<Rightarrow>
             (let denominator0 = parseInt m7;
                  multiplier2 = (if multiplier1 > denominator0 - 1 then denominator0 - 1
                                 else multiplier1);
                  tmpIntervals = getFractionOffsetAndMessage (suffixes self)
                     \<lparr>all = all1, every = every0, multiplier = multiplier2,
                      relative = firstLast, exclude = excl, isFraction = True,
                      raw = matched, denominator = denominator0\<rparr> durationMilli
              in if priority self = ''order''
                 then Inr (acc\<lparr>orderIntervals := orderIntervals acc @ tmpIntervals\<rparr>)
                 else Inr (acc\<lparr>fractionIntervals := fractionIntervals acc @ tmpIntervals\<rparr>))
         | None \<Rightarrow>
             (case map_of matches 4 of
                None \<Rightarrow> Inl NotANumber
              | Some m4 \<Rightarrow>
                  (case getTimeOffsetAndMessage (suffixes self)
                          \<lparr>all = all1, every = every0, multiplier = multiplier1,
                           relative = firstLast, exclude = excl, isFraction = False,
                           raw = matched,
                           unit = (case map_of matches 5 of
                                     Some m5 \<Rightarrow> toLocaleLowerCase m5 | None \<Rightarrow> ''s''),
                           time = parseInt m4\<rparr> durationMilli matched of
                     Inl f \<Rightarrow> Inl f
                   | Inr tmpIntervals \<Rightarrow>
                       if priority self = ''order''
                       then Inr (acc\<lparr>orderIntervals := orderIntervals acc @ tmpIntervals\<rparr>)
                       else Inr (acc\<lparr>timeIntervals := timeIntervals acc @ tmpIntervals\<rparr>))))"

section \<open>Every match of the notation expression consumes input\<close>

text \<open>
  \<^verbatim>\<open>exec\<close> with the flag \<^verbatim>\<open>g\<close> resumes at the end of the previous match, so the
  \<^verbatim>\<open>while\<close> loop of \<^verbatim>\<open>parseRawIntervals\<close> ends only because no match is empty.
  \<open>minLen\<close> is a lower bound on what an expression consumes.
\<close>

fun minLen :: "regex \<Rightarrow> nat" where
  "minLen (Cls P) = 1"
| "minLen Bol = 0"
| "minLen Eol = 0"
| "minLen (Seq a b) = minLen a + minLen b"
| "minLen (Alt a b) = min (minLen a) (minLen b)"
| "minLen (Opt a) = 0"
| "minLen (Rep P lo hi) = lo"
| "minLen (Grp i a) = minLen a"
| "minLen (Look a) = 0"

lemma rmatch_consumes:
  "(e, s', c') \<in> set (rmatch r (p, s, c)) \<Longrightarrow>
     length s' + minLen r \<le> length s \<and> e = p + (length s - length s')
     \<and> s' = drop (length s - length s') s"
proof (induction r arbitrary: p s c e s' c')
  case (Cls P)
  then show ?case by (auto split: list.splits if_splits)
next
  case Bol
  then show ?case by (auto split: if_splits)
next
  case Eol
  then show ?case by (auto split: if_splits)
next
  case (Seq a b)
  from Seq.prems obtain e1 s1 c1 where
    m1: "(e1, s1, c1) \<in> set (rmatch a (p, s, c))" and
    m2: "(e, s', c') \<in> set (rmatch b (e1, s1, c1))"
    by auto
  note h1 = Seq.IH(1)[OF m1] and h2 = Seq.IH(2)[OF m2]
  have l: "length s' + (minLen a + minLen b) \<le> length s"
    using h1 h2 by linarith
  have e: "e = p + (length s - length s')"
    using h1 h2 by linarith
  have le1: "length s1 \<le> length s" and le2: "length s' \<le> length s1"
    using h1 h2 by linarith+
  have d1: "s1 = drop (length s - length s1) s" and d2: "s' = drop (length s1 - length s') s1"
    using h1 h2 by blast+
  have "(length s1 - length s') + (length s - length s1) = length s - length s'"
    using le1 le2 by linarith
  then have "drop (length s1 - length s') (drop (length s - length s1) s)
             = drop (length s - length s') s"
    by (simp only: drop_drop)
  with d1 d2 have "s' = drop (length s - length s') s"
    by metis
  with l e show ?case by simp
next
  case (Alt a b)
  from Alt.prems have "(e, s', c') \<in> set (rmatch a (p, s, c)) \<or> (e, s', c') \<in> set (rmatch b (p, s, c))"
    by simp
  then show ?case
    using Alt.IH(1)[of e s' c' p s c] Alt.IH(2)[of e s' c' p s c] by auto
next
  case (Opt a)
  from Opt.prems have "(e, s', c') \<in> set (rmatch a (p, s, c)) \<or> (e, s', c') = (p, s, c)"
    by auto
  then show ?case
    using Opt.IH[of e s' c' p s c] by auto
next
  case (Rep P lo hi)
  define m where "m = (case hi of None \<Rightarrow> length (takeWhile P s)
                         | Some h \<Rightarrow> min (length (takeWhile P s)) h)"
  have mle: "m \<le> length (takeWhile P s)"
    by (simp add: m_def split: option.splits)
  from Rep.prems have "(e, s', c') \<in> set (map (\<lambda>k. (p + k, drop k s, c)) (rev [lo..<Suc m]))"
    unfolding m_def by (simp only: rmatch.simps Let_def)
  then have "(e, s', c') \<in> (\<lambda>k. (p + k, drop k s, c)) ` set (rev [lo..<Suc m])"
    by (simp only: set_map)
  then obtain k0 where k0: "k0 \<in> set (rev [lo..<Suc m])"
      and eq: "(e, s', c') = (p + k0, drop k0 s, c)"
    by (rule imageE)
  from k0 have "lo \<le> k0" "k0 \<le> m"
    by auto
  moreover from eq have "e = p + k0" "s' = drop k0 s"
    by simp_all
  ultimately have "lo \<le> k0" "k0 \<le> m" "e = p + k0" "s' = drop k0 s"
    by simp_all
  with mle have "\<exists>k. lo \<le> k \<and> k \<le> length (takeWhile P s) \<and> e = p + k \<and> s' = drop k s"
    by (intro exI[of _ k0]) simp
  then obtain k where k: "lo \<le> k" "k \<le> length (takeWhile P s)"
      "e = p + k" "s' = drop k s"
    by blast
  have "length (takeWhile P s) \<le> length s"
    by (rule length_takeWhile_le)
  with k(2) have ks: "k \<le> length s"
    by linarith
  then have "length s - length s' = k"
    using k(4) by simp
  with k ks show ?case
    by simp
next
  case (Grp i a)
  from Grp.prems obtain c0 where "(e, s', c0) \<in> set (rmatch a (p, s, c))"
    by auto
  from Grp.IH[OF this] show ?case by simp
next
  case (Look a)
  then show ?case by (auto split: if_splits)
qed

lemma search_consumes:
  "search r p s = Some (q, s0, e, s', c') \<Longrightarrow> length s' + minLen r \<le> length s"
proof (induction s arbitrary: p)
  case Nil
  then have "(e, s', c') \<in> set (rmatch r (p, [], []))"
    by (auto split: list.splits)
  from rmatch_consumes[OF this] show ?case by simp
next
  case (Cons x xs)
  show ?case
  proof (cases "rmatch r (p, x # xs, [])")
    case Nil
    with Cons.prems have "search r (Suc p) xs = Some (q, s0, e, s', c')" by simp
    from Cons.IH[OF this] show ?thesis by simp
  next
    case (Cons st sts)
    with Cons.prems have "st = (e, s', c')" by simp
    with Cons have "(e, s', c') \<in> set (rmatch r (p, x # xs, []))" by simp
    from rmatch_consumes[OF this] show ?thesis by simp
  qed
qed

lemma minLen_intervalRegex: "minLen intervalRegex = 1"
  by (simp add: intervalRegex_def lit_def)

text \<open>
  The \<^verbatim>\<open>while ((matches = regex.exec(rawIntervals)) !== null)\<close> loop:
  \<open>lastIndex\<close> is the index where the search resumes and \<open>rest\<close> the input from there.
\<close>

function parseLoop ::
  "talkingTimer \<Rightarrow> rat \<Rightarrow> bool \<Rightarrow> nat \<Rightarrow> string \<Rightarrow> intervalLists
     \<Rightarrow> failure + intervalLists" where
  "parseLoop self durationMilli excl lastIndex rest acc =
     (case search intervalRegex lastIndex rest of
        None \<Rightarrow> Inr acc
      | Some (start, input, (lastIndex', rest', matches)) \<Rightarrow>
          (case loopBody self durationMilli excl (take (lastIndex' - start) input) matches acc of
             Inl f \<Rightarrow> Inl f
           | Inr acc' \<Rightarrow> parseLoop self durationMilli excl lastIndex' rest' acc'))"
  by pat_completeness auto
termination
proof (relation "measure (\<lambda>(self, durationMilli, excl, lastIndex, rest, acc). length rest)")
  show "wf (measure (\<lambda>(self :: talkingTimer, durationMilli :: rat, excl :: bool,
                       lastIndex :: nat, rest :: string, acc :: intervalLists). length rest))"
    by simp
next
  fix self :: talkingTimer and durationMilli :: rat and excl :: bool and lastIndex :: nat
    and rest :: string and acc :: intervalLists and x2 start y input ya lastIndex' yb rest'
    and matches :: captures and acc' :: intervalLists
  assume "search intervalRegex lastIndex rest = Some x2" "(start, y) = x2"
    "(input, ya) = y" "(lastIndex', yb) = ya" "(rest', matches) = yb"
  then have "search intervalRegex lastIndex rest = Some (start, input, lastIndex', rest', matches)"
    by simp
  from search_consumes[OF this] have "length rest' < length rest"
    by (simp add: minLen_intervalRegex)
  then show "((self, durationMilli, excl, lastIndex', rest', acc'),
              (self, durationMilli, excl, lastIndex, rest, acc))
             \<in> measure (\<lambda>(self, durationMilli, excl, lastIndex, rest, acc). length rest)"
    by simp
qed

declare parseLoop.simps [simp del]

definition parseRawIntervals ::
  "talkingTimer \<Rightarrow> jsValue \<Rightarrow> rat \<Rightarrow> bool option \<Rightarrow> failure + announcement list" where
  "parseRawIntervals self rawIntervals durationMilli omit =
     (case rawIntervals of
        JSOther \<Rightarrow> Inr []
      | JSString str \<Rightarrow>
          if str = [] then Inr []
          else
            (let excl = (case omit of Some b \<Rightarrow> b | None \<Rightarrow> False)
             in case parseLoop self durationMilli excl 0 str
                       \<lparr>timeIntervals = [], fractionIntervals = [], orderIntervals = []\<rparr> of
                  Inl f \<Rightarrow> Inl f
                | Inr acc \<Rightarrow>
                    (let output =
                           (if priority self = ''order'' then orderIntervals acc
                            else if priority self = ''time''
                            then timeIntervals acc @ fractionIntervals acc
                            else fractionIntervals acc @ timeIntervals acc)
                     in Inr (sortOffsets (filterOffsets output durationMilli)))))"

section \<open>Tick dispatcher\<close>


definition setProgressTicker :: "int \<Rightarrow> talkingTimer \<Rightarrow> talkingTimer" where
  "setProgressTicker now self =
     (if endTime self = 0 then self\<lparr>endTime := now + remainingMilliseconds self\<rparr> else self)"

text \<open>The element as the constructor leaves it when no global defaults object exists.\<close>

definition newTalkingTimer :: talkingTimer where
  "newTalkingTimer = \<lparr>priority = ''fraction'', suffixes = defaultSuffixes,
     preTable = pre defaultPreDelays, initialMilliseconds = 0, remainingMilliseconds = 0,
     endTime = 0, sayIntervals = [], workingIntervals = [], said = [], ended = False\<rparr>"

section \<open>Notions used in the proofs about the notation parser\<close>














text \<open>The countdown of the directive \<^verbatim>\<open>allLast10\<close>.\<close>

definition lastTen :: "announcement list" where
  "lastTen = map (\<lambda>n. \<lparr>offset = of_nat n * 1000, message = showNat n,
                         araw = Some '' allLast10''\<rparr>) (rev [1..<11])"

section \<open>Properties of the time codec\<close>

lemma getWholePart_part: "part (getWholePart i m) = i mod m"
  by (simp add: getWholePart_def Let_def minus_div_mult_eq_mod)

lemma getWholePart_whole: "whole (getWholePart i m) = i div m"
  by (simp add: getWholePart_def Let_def)

lemma roundTrip_eq:
  "timeObjToMilliseconds (millisecondsToTimeObj d) = d - d mod 100"
proof -
  let ?r1 = "d mod 3600000"
  let ?r2 = "?r1 mod 60000"
  let ?r3 = "?r2 mod 1000"
  have e: "timeObjToMilliseconds (millisecondsToTimeObj d)
        = ?r3 div 100 * 100 + ?r2 div 1000 * 1000 + ?r1 div 60000 * 60000
          + d div 3600000 * 3600000"
    by (simp add: timeObjToMilliseconds_def millisecondsToTimeObj_def Let_def
        getWholePart_part getWholePart_whole multipliers_def)
  have a: "d div 3600000 * 3600000 = d - ?r1"
    by (simp add: minus_mod_eq_div_mult)
  have b: "?r1 div 60000 * 60000 = ?r1 - ?r2"
    by (simp add: minus_mod_eq_div_mult)
  have c: "?r2 div 1000 * 1000 = ?r2 - ?r3"
    by (simp add: minus_mod_eq_div_mult)
  have f: "?r3 div 100 * 100 = ?r3 - ?r3 mod 100"
    by (simp add: minus_mod_eq_div_mult)
  have g: "?r3 mod 100 = d mod 100"
    by (simp add: mod_mod_cancel)
  show ?thesis
    unfolding e a b c f g by simp
qed

text \<open>
  C1 (as stated: the round trip is the identity on \<open>[0, 86400000]\<close>) fails at
  \<open>d = 12345\<close>: the 45 milliseconds below a tenth are dropped.
\<close>

theorem C1_roundTrip_counterexample:
  "(0::int) \<le> 12345 \<and> (12345::int) \<le> 86400000
   \<and> timeObjToMilliseconds (millisecondsToTimeObj 12345) = 12300
   \<and> timeObjToMilliseconds (millisecondsToTimeObj 12345) \<noteq> 12345"
  by (simp add: roundTrip_eq)

text \<open>
  C1 (amended): for every duration \<open>d\<close> in \<open>[0, 86400000]\<close> the round trip returns
  \<open>d\<close> rounded down to a multiple of 100 milliseconds, so it is the identity exactly
  on the multiples of 100.
\<close>

theorem C1_roundTrip_tenths:
  assumes "0 \<le> d" and "d \<le> 86400000"
  shows "timeObjToMilliseconds (millisecondsToTimeObj d) = d - d mod 100
       \<and> (timeObjToMilliseconds (millisecondsToTimeObj d) = d \<longleftrightarrow> d mod 100 = 0)"
  by (simp add: roundTrip_eq)

theorem C1_roundTrip_tenths_witness:
  "(0::int) \<le> 5400 \<and> (5400::int) \<le> 86400000
   \<and> timeObjToMilliseconds (millisecondsToTimeObj 5400) = 5400"
  using C1_roundTrip_tenths [of 5400] by simp

section \<open>Properties of the lead table\<close>

text \<open>
  C9: for every non-negative \<^verbatim>\<open>timeRemaining\<close> the lookup returns a value, which is
  the first band's delay up to 10000, the second band's delay above 10000 and up to
  19999, and the third band's delay for every larger value, also above the last
  threshold 86400, where the fall-back after the loop answers.
\<close>

theorem C9_getSpeakPreOffset_bands:
  assumes "0 \<le> t"
  shows "getSpeakPreOffset (pre g) t =
           Some (if t \<le> 10000 then delay10000 g
                 else if t \<le> 19999 then delay19999 g
                 else delay86400 g)
       \<and> (if 86400 < t then preLoop (pre g) t = None
          else preLoop (pre g) t = getSpeakPreOffset (pre g) t)"
  by (simp add: getSpeakPreOffset_def pre_def)

theorem C9_getSpeakPreOffset_bands_witness:
  "getSpeakPreOffset (pre defaultPreDelays) 10000 = Some 200
   \<and> getSpeakPreOffset (pre defaultPreDelays) 10001 = Some 600
   \<and> getSpeakPreOffset (pre defaultPreDelays) 19999 = Some 600
   \<and> getSpeakPreOffset (pre defaultPreDelays) 20000 = Some 1200
   \<and> getSpeakPreOffset (pre defaultPreDelays) 90000 = Some 1200
   \<and> preLoop (pre defaultPreDelays) 90000 = None"
  using C9_getSpeakPreOffset_bands [of 10000 defaultPreDelays]
    C9_getSpeakPreOffset_bands [of 10001 defaultPreDelays]
    C9_getSpeakPreOffset_bands [of 19999 defaultPreDelays]
    C9_getSpeakPreOffset_bands [of 20000 defaultPreDelays]
    C9_getSpeakPreOffset_bands [of 90000 defaultPreDelays]
  by (simp add: defaultPreDelays_def)

section \<open>Properties of the duration parser\<close>

text \<open>
  C2: every accepted duration text gives at most 86,400,000 milliseconds. The code does
  not keep this for \<^verbatim>\<open>24:59:59\<close>: the expression accepts hour 24 with any minutes and
  seconds, and only the bare-seconds branch limits the result (as it does for
  \<^verbatim>\<open>999999\<close>).
\<close>

theorem C2_validateTimeDuration_above_ceiling:
  "fst (validateTimeDuration (JSString ''24:59:59'') self)
   \<and> initialMilliseconds (snd (validateTimeDuration (JSString ''24:59:59'') self)) = 89999000
   \<and> fst (validateTimeDuration (JSString ''999999'') self)
   \<and> initialMilliseconds (snd (validateTimeDuration (JSString ''999999'') self)) = 86400000"
  by (simp add: validateTimeDuration_def durationRegex_def oneOf_def digit_def parseInt_def
      digitVal_def resetTimerValues_def timeObjToMilliseconds_def multipliers_def)

section \<open>Properties of the notation parser on fixed notations\<close>

lemma search_half: "search intervalRegex 0 ''1/2'' = Some (0, ''1/2'', 3, [], [(7, ''2'')])"
  by code_simp

lemma rmatch_nil: "rmatch intervalRegex (p, [], c) = []"
proof (cases "rmatch intervalRegex (p, [], c)")
  case Nil
  then show ?thesis .
next
  case (Cons st sts)
  obtain e s' c' where st: "st = (e, s', c')"
    by (cases st)
  with Cons have "(e, s', c') \<in> set (rmatch intervalRegex (p, [], c))"
    by simp
  from rmatch_consumes[OF this] show ?thesis
    by (simp add: minLen_intervalRegex)
qed

lemma parseLoop_nil: "parseLoop self T excl p [] acc = Inr acc"
  by (subst parseLoop.simps) (simp add: rmatch_nil)

lemma loopBody_half:
  "loopBody self T excl ''1/2'' [(7, ''2'')] acc =
     Inr (if priority self = ''order''
          then acc\<lparr>orderIntervals := orderIntervals acc
                 @ [\<lparr>offset = T / 2, message = ''Half way'', araw = Some ''1/2''\<rparr>]\<rparr>
          else acc\<lparr>fractionIntervals := fractionIntervals acc
                 @ [\<lparr>offset = T / 2, message = ''Half way'', araw = Some ''1/2''\<rparr>]\<rparr>)"
  by (simp add: loopBody_def Let_def parseInt_def digitVal_def getFractionOffsetAndMessage_def)

lemma parseLoop_half:
  "parseLoop self T excl 0 ''1/2'' acc =
     Inr (if priority self = ''order''
          then acc\<lparr>orderIntervals := orderIntervals acc
                 @ [\<lparr>offset = T / 2, message = ''Half way'', araw = Some ''1/2''\<rparr>]\<rparr>
          else acc\<lparr>fractionIntervals := fractionIntervals acc
                 @ [\<lparr>offset = T / 2, message = ''Half way'', araw = Some ''1/2''\<rparr>]\<rparr>)"
  apply (subst parseLoop.simps)
  apply (simp only: search_half option.case prod.case)
  apply (simp add: loopBody_half)
  apply (simp add: parseLoop_nil)
  done

text \<open>
  C3: for every duration \<open>T > 0\<close> and the notation \<^verbatim>\<open>1/2\<close> the schedule is exactly one
  announcement, at \<open>T / 2\<close>, with the fixed phrase \<^verbatim>\<open>Half way\<close>.
\<close>

theorem C3_half_schedule:
  assumes "0 < T"
  shows "parseRawIntervals self (JSString ''1/2'') T omit =
           Inr [\<lparr>offset = T / 2, message = ''Half way'', araw = Some ''1/2''\<rparr>]"
  using assms
  by (simp add: parseRawIntervals_def parseLoop_half Let_def filterOffsets_def sortOffsets_def)


theorem C3_half_schedule_witness:
  "(0 :: rat) < 180000
   \<and> parseRawIntervals newTalkingTimer (JSString ''1/2'') 180000 None =
         Inr [\<lparr>offset = 90000, message = ''Half way'', araw = Some ''1/2''\<rparr>]"
  using C3_half_schedule [where T = 180000 and self = newTalkingTimer and omit = None]
  by simp

lemma search_minutes:
  "search intervalRegex 0 ''minutes allLast10'' =
     Some (7, '' allLast10'', 17, [], [(5, []), (4, ''10''), (3, ''Last''), (1, ''all'')])"
  by code_simp

lemma floor_rat_numeral [simp]:
  "\<lfloor>(numeral a :: rat) / numeral b\<rfloor> = numeral a div numeral b"
  by (metis floor_divide_of_int_eq of_int_numeral)

lemma countDown_10: "countDown 10 = [10, 9, 8, 7, 6, 5, 4, 3, 2, 1]"
  by (simp add: countDown.simps)

lemma showInt_digits:
  "showInt 1 = ''1''" "showInt 2 = ''2''" "showInt 3 = ''3''" "showInt 4 = ''4''"
  "showInt 5 = ''5''" "showInt 6 = ''6''" "showInt 7 = ''7''" "showInt 8 = ''8''"
  "showInt 9 = ''9''" "showInt 10 = ''10''"
  by (simp_all add: showInt_def showNat.simps)

lemma lastTen_eq: "lastTen =
   [\<lparr>offset = 10000, message = ''10'', araw = Some '' allLast10''\<rparr>,
    \<lparr>offset = 9000, message = ''9'', araw = Some '' allLast10''\<rparr>,
    \<lparr>offset = 8000, message = ''8'', araw = Some '' allLast10''\<rparr>,
    \<lparr>offset = 7000, message = ''7'', araw = Some '' allLast10''\<rparr>,
    \<lparr>offset = 6000, message = ''6'', araw = Some '' allLast10''\<rparr>,
    \<lparr>offset = 5000, message = ''5'', araw = Some '' allLast10''\<rparr>,
    \<lparr>offset = 4000, message = ''4'', araw = Some '' allLast10''\<rparr>,
    \<lparr>offset = 3000, message = ''3'', araw = Some '' allLast10''\<rparr>,
    \<lparr>offset = 2000, message = ''2'', araw = Some '' allLast10''\<rparr>,
    \<lparr>offset = 1000, message = ''1'', araw = Some '' allLast10''\<rparr>]"
  by (simp add: lastTen_def upt_rec showNat.simps)

lemma loopBody_allLast10:
  "loopBody self T excl '' allLast10'' [(5, []), (4, ''10''), (3, ''Last''), (1, ''all'')] acc =
     Inr (if priority self = ''order''
          then acc\<lparr>orderIntervals := orderIntervals acc @ lastTen\<rparr>
          else acc\<lparr>timeIntervals := timeIntervals acc @ lastTen\<rparr>)"
  by (simp add: loopBody_def Let_def parseInt_def digitVal_def toLocaleLowerCase_def
      toLowerChar_def getTimeOffsetAndMessage_def countDown_10 makeTimeMessage_def
      jsRound_def showInt_digits posMinus_def lastTen_eq)

lemma parseLoop_minutes:
  "parseLoop self T excl 0 ''minutes allLast10'' acc =
     Inr (if priority self = ''order''
          then acc\<lparr>orderIntervals := orderIntervals acc @ lastTen\<rparr>
          else acc\<lparr>timeIntervals := timeIntervals acc @ lastTen\<rparr>)"
proof -
  have t: "take (17 - 7) '' allLast10'' = '' allLast10''"
    by simp
  show ?thesis
    by (subst parseLoop.simps)
      (simp only: search_minutes option.case prod.case t loopBody_allLast10 sum.case
        parseLoop_nil)
qed

lemma schedule_lastTen: "sortOffsets (filterOffsets lastTen 180000) = lastTen"
  by (simp add: lastTen_eq filterOffsets_def sortOffsets_def)

text \<open>
  C5 (as stated: the schedule for 180000 ms and \<^verbatim>\<open>minutes allLast10\<close> has announcements
  at 120000 and at 60000) fails: the schedule has the ten countdown offsets only.
\<close>

theorem C5_minutes_counterexample:
  "map offset (projr (parseRawIntervals newTalkingTimer (JSString ''minutes allLast10'')
                        180000 None))
     = [10000, 9000, 8000, 7000, 6000, 5000, 4000, 3000, 2000, 1000]
   \<and> 120000 \<notin> set (map offset (projr (parseRawIntervals newTalkingTimer
                        (JSString ''minutes allLast10'') 180000 None)))
   \<and> 60000 \<notin> set (map offset (projr (parseRawIntervals newTalkingTimer
                        (JSString ''minutes allLast10'') 180000 None)))"
proof -
  have "parseRawIntervals newTalkingTimer (JSString ''minutes allLast10'') 180000 None
          = Inr lastTen"
    by (simp add: parseRawIntervals_def parseLoop_minutes Let_def schedule_lastTen)
  then show ?thesis
    by (simp add: lastTen_eq)
qed

text \<open>
  C5 (amended): for 180000 ms and \<^verbatim>\<open>minutes allLast10\<close> the schedule is exactly the ten
  announcements at 10000, 9000, ..., 1000 whose messages are the bare digits 10 down
  to 1; the token \<^verbatim>\<open>minutes\<close> matches no directive.
\<close>

theorem C5_minutes_schedule:
  "parseRawIntervals self (JSString ''minutes allLast10'') 180000 omit =
     Inr [\<lparr>offset = 10000, message = ''10'', araw = Some '' allLast10''\<rparr>,
          \<lparr>offset = 9000, message = ''9'', araw = Some '' allLast10''\<rparr>,
          \<lparr>offset = 8000, message = ''8'', araw = Some '' allLast10''\<rparr>,
          \<lparr>offset = 7000, message = ''7'', araw = Some '' allLast10''\<rparr>,
          \<lparr>offset = 6000, message = ''6'', araw = Some '' allLast10''\<rparr>,
          \<lparr>offset = 5000, message = ''5'', araw = Some '' allLast10''\<rparr>,
          \<lparr>offset = 4000, message = ''4'', araw = Some '' allLast10''\<rparr>,
          \<lparr>offset = 3000, message = ''3'', araw = Some '' allLast10''\<rparr>,
          \<lparr>offset = 2000, message = ''2'', araw = Some '' allLast10''\<rparr>,
          \<lparr>offset = 1000, message = ''1'', araw = Some '' allLast10''\<rparr>]"
proof -
  have "parseRawIntervals self (JSString ''minutes allLast10'') 180000 omit = Inr lastTen"
    by (simp add: parseRawIntervals_def parseLoop_minutes Let_def schedule_lastTen)
  then show ?thesis
    by (simp only: lastTen_eq)
qed


section \<open>Properties of the fraction generator\<close>

text \<open>
  C10: a directive with denominator 2 gives the message \<^verbatim>\<open>Half way\<close>, with no full
  stop; an announcement of another fraction directive whose offset is within 5000 ms of
  \<open>T / 2\<close> is replaced by one at \<open>T / 2\<close> with the configured half phrase, by
  default \<^verbatim>\<open>Half way.\<close> with a full stop; the two texts differ.
\<close>

theorem C10_two_half_phrases:
  "(denominator iv = 2 \<longrightarrow>
      getFractionOffsetAndMessage sfx iv T =
        [\<lparr>offset = T / 2, message = ''Half way'', araw = Some (raw iv)\<rparr>])
   \<and> (denominator iv \<noteq> 2 \<and> i < length (fractionOffsets sfx iv T)
        \<and> tooClose (offset (fractionOffsets sfx iv T ! i)) (T / 2) \<longrightarrow>
      getFractionOffsetAndMessage sfx iv T ! i =
        \<lparr>offset = T / 2, message = halfSuffix sfx, araw = None\<rparr>)
   \<and> halfSuffix defaultSuffixes = ''Half way.''
   \<and> ''Half way.'' \<noteq> ''Half way''"
  by (simp add: getFractionOffsetAndMessage_def halfCollapse_def defaultSuffixes_def)

theorem C10_two_half_phrases_witness:
  "getFractionOffsetAndMessage defaultSuffixes
      \<lparr>all = True, every = False, multiplier = 0, relative = [], exclude = False,
       isFraction = True, raw = ''1/2'', denominator = 2\<rparr> 180000
     = [\<lparr>offset = 90000, message = ''Half way'', araw = Some ''1/2''\<rparr>]
   \<and> tooClose (offset (fractionOffsets defaultSuffixes
      \<lparr>all = True, every = False, multiplier = 0, relative = [], exclude = False,
       isFraction = True, raw = ''1/4'', denominator = 4\<rparr> 180000 ! 2)) (180000 / 2)
   \<and> getFractionOffsetAndMessage defaultSuffixes
      \<lparr>all = True, every = False, multiplier = 0, relative = [], exclude = False,
       isFraction = True, raw = ''1/4'', denominator = 4\<rparr> 180000 ! 2
     = \<lparr>offset = 90000, message = ''Half way.'', araw = None\<rparr>"
  using C10_two_half_phrases [where iv = "\<lparr>all = True, every = False, multiplier = 0,
       relative = [], exclude = False, isFraction = True, raw = ''1/2'', denominator = 2\<rparr>"
       and sfx = defaultSuffixes and T = 180000 and i = 0]
    C10_two_half_phrases [where iv = "\<lparr>all = True, every = False, multiplier = 0,
       relative = [], exclude = False, isFraction = True, raw = ''1/4'', denominator = 4\<rparr>"
       and sfx = defaultSuffixes and T = 180000 and i = 2]
  by (simp add: fractionOffsets_def fractionCount_def tooClose_def defaultSuffixes_def
      Let_def upt_rec)





section \<open>Properties of the schedule builder\<close>












section \<open>Properties of the tick dispatcher\<close>




section \<open>Properties of the notation parser on every input\<close>






















































end
